theory Spec2Isabelle
  imports Main "HOL-Library.Word"
begin

section \<open>JavaScript strings and values\<close>

text \<open>
  A JavaScript string is a sequence of 16-bit code units. \<open>str\<close> writes an ASCII
  literal of the source as such a sequence.
\<close>

type_synonym code_unit = "16 word"
type_synonym jsstring = "code_unit list"

definition str :: "string \<Rightarrow> jsstring" where
  "str s = map of_char s"

text \<open>
  The values the component handles: what \<open>JSON.parse\<close> returns, and \<open>undefined\<close>
  for a property that is not there. A Number is kept as its canonical decimal text
  (what \<open>Number::toString\<close> gives for it): the program only ever converts a Number to
  a string or tests it for zero.
\<close>

datatype jsval =
    JUndefined
  | JNull
  | JBool bool
  | JNum jsstring
  | JStr jsstring
  | JArr "jsval list"
  | JObj "(jsstring \<times> jsval) list"

text \<open>
  Exceptions. \<open>Thrown m\<close> is an Error whose message is \<open>m\<close>, as \<open>new Error(m)\<close> of
  the source makes. The others are raised by the platform, with a message that each
  engine words in its own way: \<open>JSON.parse\<close> refusing a text, reading a property of
  \<open>null\<close> or \<open>undefined\<close>, calling a method that is not there, converting to a
  string an object that has no usable \<open>toString\<close>.
\<close>

datatype js_error =
    Thrown jsstring
  | SyntaxError jsstring
  | NoProperty jsval jsstring
  | NotAFunction jsstring
  | NotPrimitive jsval

text \<open>
  What a state slot set by \<open>setError\<close> holds: a value, or the message text of a
  platform exception.
\<close>

datatype shown = Val jsval | MessageOf js_error

fun message :: "js_error \<Rightarrow> shown" where
  "message (Thrown m) = Val (JStr m)"
| "message e = MessageOf e"

subsection \<open>Conversions\<close>

fun join_with :: "jsstring \<Rightarrow> jsstring list \<Rightarrow> jsstring" where
  "join_with sep [] = []"
| "join_with sep [x] = x"
| "join_with sep (x # y # ys) = x @ sep @ join_with sep (y # ys)"

text \<open>
  \<open>ToString\<close>, as string concatenation, \<open>new Error\<close> and \<open>alert\<close> apply it. An array
  joins its elements with commas, \<open>null\<close> and \<open>undefined\<close> elements giving the empty
  string. An object gives \<open>[object Object]\<close> through the \<open>toString\<close> it inherits; a member
  of its own with that name hides the method, and since no JSON value can be called the
  conversion throws a TypeError.
\<close>

fun to_string :: "jsval \<Rightarrow> js_error + jsstring"
  and elements_text :: "jsval list \<Rightarrow> js_error + jsstring list" where
  "to_string JUndefined = Inr (str ''undefined'')"
| "to_string JNull = Inr (str ''null'')"
| "to_string (JBool b) = Inr (if b then str ''true'' else str ''false'')"
| "to_string (JNum t) = Inr t"
| "to_string (JStr s) = Inr s"
| "to_string (JArr xs) =
     (case elements_text xs of
        Inl e \<Rightarrow> Inl e
      | Inr ts \<Rightarrow> Inr (join_with (str '','') ts))"
| "to_string (JObj ms) =
     (if map_of ms (str ''toString'') \<noteq> None then Inl (NotPrimitive (JObj ms))
      else Inr (str ''[object Object]''))"
| "elements_text [] = Inr []"
| "elements_text (x # xs) =
     (case (if x = JUndefined \<or> x = JNull then Inr [] else to_string x) of
        Inl e \<Rightarrow> Inl e
      | Inr t \<Rightarrow>
          (case elements_text xs of
             Inl e \<Rightarrow> Inl e
           | Inr ts \<Rightarrow> Inr (t # ts)))"

text \<open>Truthiness, as \<open>||\<close> tests it. Zero of either sign prints as \<open>0\<close>.\<close>

fun truthy :: "jsval \<Rightarrow> bool" where
  "truthy JUndefined = False"
| "truthy JNull = False"
| "truthy (JBool b) = b"
| "truthy (JNum t) = (t \<noteq> str ''0'' \<and> t \<noteq> str ''NaN'')"
| "truthy (JStr s) = (s \<noteq> [])"
| "truthy (JArr xs) = True"
| "truthy (JObj ms) = True"

text \<open>
  Reading a property \<open>v.k\<close>, for the names this program reads (\<open>type\<close>, \<open>data\<close>,
  \<open>id\<close>, \<open>source_text\<close>, \<open>error\<close>, \<open>message\<close>): none of them is a property of the
  prototypes of strings, numbers, booleans, arrays or objects, so only an own property
  of an object is found. Reading a property of \<open>null\<close> or \<open>undefined\<close> throws.
\<close>

fun get_prop :: "jsval \<Rightarrow> jsstring \<Rightarrow> js_error + jsval" where
  "get_prop JUndefined k = Inl (NoProperty JUndefined k)"
| "get_prop JNull k = Inl (NoProperty JNull k)"
| "get_prop (JObj ms) k = Inr (case map_of ms k of None \<Rightarrow> JUndefined | Some v \<Rightarrow> v)"
| "get_prop v k = Inr JUndefined"

section \<open>\<open>JSON.parse\<close>\<close>

text \<open>
  The grammar of ECMA-404, which \<open>JSON.parse\<close> follows: a lexer for the six
  structural characters, strings, numbers and the three literal names, then a parser
  with an explicit stack of the arrays and objects that are open.
\<close>

datatype token =
    TLBrace | TRBrace | TLBracket | TRBracket | TColon | TComma
  | TString jsstring
  | TNumber jsstring
  | TTrue | TFalse | TNull

definition is_json_ws :: "code_unit \<Rightarrow> bool" where
  "is_json_ws c = (c = 0x20 \<or> c = 0x09 \<or> c = 0x0A \<or> c = 0x0D)"

definition is_digit :: "code_unit \<Rightarrow> bool" where
  "is_digit c = (0x30 \<le> c \<and> c \<le> 0x39)"

definition hex_value :: "code_unit \<Rightarrow> code_unit option" where
  "hex_value c =
     (if 0x30 \<le> c \<and> c \<le> 0x39 then Some (c - 0x30)
      else if 0x41 \<le> c \<and> c \<le> 0x46 then Some (c - 0x41 + 10)
      else if 0x61 \<le> c \<and> c \<le> 0x66 then Some (c - 0x61 + 10)
      else None)"

definition hex4 :: "code_unit \<Rightarrow> code_unit \<Rightarrow> code_unit \<Rightarrow> code_unit \<Rightarrow> code_unit option"
  where
  "hex4 a b c d =
     (case (hex_value a, hex_value b, hex_value c, hex_value d) of
        (Some x, Some y, Some z, Some w) \<Rightarrow> Some (((x * 16 + y) * 16 + z) * 16 + w)
      | _ \<Rightarrow> None)"

text \<open>The character after a backslash, other than \<open>u\<close>.\<close>

definition simple_escape :: "code_unit \<Rightarrow> code_unit option" where
  "simple_escape e =
     (if e = 0x22 then Some 0x22
      else if e = 0x5C then Some 0x5C
      else if e = 0x2F then Some 0x2F
      else if e = 0x62 then Some 0x08
      else if e = 0x66 then Some 0x0C
      else if e = 0x6E then Some 0x0A
      else if e = 0x72 then Some 0x0D
      else if e = 0x74 then Some 0x09
      else None)"

text \<open>
  An escape, read after its backslash: the code unit it denotes and the input after it.
\<close>

definition lex_escape :: "jsstring \<Rightarrow> (code_unit \<times> jsstring) option" where
  "lex_escape cs =
     (case cs of
        [] \<Rightarrow> None
      | e # cs1 \<Rightarrow>
          if e = 0x75 then
            (case cs1 of
               h1 # h2 # h3 # h4 # cs2 \<Rightarrow>
                 (case hex4 h1 h2 h3 h4 of
                    None \<Rightarrow> None
                  | Some u \<Rightarrow> Some (u, cs2))
             | _ \<Rightarrow> None)
          else
            (case simple_escape e of
               None \<Rightarrow> None
             | Some u \<Rightarrow> Some (u, cs1)))"

lemma lex_escape_shorter: "lex_escape cs = Some (u, rest) \<Longrightarrow> length rest < length cs"
  unfolding lex_escape_def
  by (simp split: list.splits if_splits option.splits) auto

text \<open>
  The rest of a string after its opening quote: the characters it denotes and the
  input after the closing quote. A control character below U+0020 must be escaped.
\<close>

function lex_string :: "jsstring \<Rightarrow> (jsstring \<times> jsstring) option" where
  "lex_string [] = None"
| "lex_string (c # cs) =
     (if c = 0x22 then Some ([], cs)
      else if c = 0x5C then
        (case lex_escape cs of
           None \<Rightarrow> None
         | Some (u, cs1) \<Rightarrow>
             (case lex_string cs1 of
                None \<Rightarrow> None
              | Some (s, rest) \<Rightarrow> Some (u # s, rest)))
      else if c < 0x20 then None
      else
        (case lex_string cs of
           None \<Rightarrow> None
         | Some (s, rest) \<Rightarrow> Some (c # s, rest)))"
  by pat_completeness auto
termination
  by (relation "measure length") (auto dest: lex_escape_shorter)

text \<open>
  A number: an optional minus, \<open>0\<close> or a digit sequence without leading zero, an
  optional fraction, an optional exponent. The result is the lexeme and the rest.
\<close>

definition lex_digits :: "jsstring \<Rightarrow> (jsstring \<times> jsstring) option" where
  "lex_digits cs =
     (if takeWhile is_digit cs = [] then None
      else Some (takeWhile is_digit cs, dropWhile is_digit cs))"

definition lex_int :: "jsstring \<Rightarrow> (jsstring \<times> jsstring) option" where
  "lex_int cs =
     (case cs of
        [] \<Rightarrow> None
      | c # cs1 \<Rightarrow>
          if c = 0x30 then Some ([c], cs1)
          else if is_digit c then lex_digits cs
          else None)"

definition lex_frac :: "jsstring \<Rightarrow> (jsstring \<times> jsstring) option" where
  "lex_frac cs =
     (case cs of
        c # cs1 \<Rightarrow>
          if c = 0x2E then
            (case lex_digits cs1 of
               None \<Rightarrow> None
             | Some (ds, rest) \<Rightarrow> Some (c # ds, rest))
          else Some ([], cs)
      | [] \<Rightarrow> Some ([], cs))"

definition lex_exp :: "jsstring \<Rightarrow> (jsstring \<times> jsstring) option" where
  "lex_exp cs =
     (case cs of
        c # cs1 \<Rightarrow>
          if c = 0x65 \<or> c = 0x45 then
            (case cs1 of
               s # cs2 \<Rightarrow>
                 if s = 0x2B \<or> s = 0x2D then
                   (case lex_digits cs2 of
                      None \<Rightarrow> None
                    | Some (ds, rest) \<Rightarrow> Some (c # s # ds, rest))
                 else
                   (case lex_digits cs1 of
                      None \<Rightarrow> None
                    | Some (ds, rest) \<Rightarrow> Some (c # ds, rest))
             | [] \<Rightarrow> None)
          else Some ([], cs)
      | [] \<Rightarrow> Some ([], cs))"

definition lex_unsigned :: "jsstring \<Rightarrow> (jsstring \<times> jsstring) option" where
  "lex_unsigned cs =
     (case lex_int cs of
        None \<Rightarrow> None
      | Some (i, r1) \<Rightarrow>
          (case lex_frac r1 of
             None \<Rightarrow> None
           | Some (f, r2) \<Rightarrow>
               (case lex_exp r2 of
                  None \<Rightarrow> None
                | Some (e, r3) \<Rightarrow> Some (i @ f @ e, r3))))"

definition lex_number :: "jsstring \<Rightarrow> (jsstring \<times> jsstring) option" where
  "lex_number cs =
     (case cs of
        [] \<Rightarrow> None
      | c # cs1 \<Rightarrow>
          if c = 0x2D then
            (case lex_unsigned cs1 of
               None \<Rightarrow> None
             | Some (n, rest) \<Rightarrow> Some (c # n, rest))
          else lex_unsigned cs)"

text \<open>A literal name: the input must start with it.\<close>

definition lex_name :: "jsstring \<Rightarrow> jsstring \<Rightarrow> jsstring option" where
  "lex_name name cs =
     (if take (length name) cs = name then Some (drop (length name) cs) else None)"

text \<open>The lexer. It cannot go on for ever: each token leaves less input.\<close>

lemma lex_string_shorter: "lex_string cs = Some (s, rest) \<Longrightarrow> length rest \<le> length cs"
proof (induction cs arbitrary: s rest rule: lex_string.induct)
  case 1
  then show ?case by simp
next
  case (2 c cs)
  show ?case
  proof (cases "c = 0x22")
    case True
    with "2.prems" show ?thesis by simp
  next
    case nq: False
    show ?thesis
    proof (cases "c = 0x5C")
      case True
      with nq "2.prems" obtain u cs1 s1 where
        e: "lex_escape cs = Some (u, cs1)" and r: "lex_string cs1 = Some (s1, rest)"
        by (auto split: option.splits)
      from "2.IH"(1) [OF nq True e refl r] lex_escape_shorter [OF e] show ?thesis by simp
    next
      case False
      with nq "2.prems" obtain s1 where
        c: "\<not> c < 0x20" and r: "lex_string cs = Some (s1, rest)"
        by (auto split: option.splits if_splits)
      from "2.IH"(2) [OF nq False c r] show ?thesis by simp
    qed
  qed
qed

lemma lex_digits_shorter: "lex_digits cs = Some (ds, rest) \<Longrightarrow> length rest < length cs"
proof -
  assume a: "lex_digits cs = Some (ds, rest)"
  then have "0 < length (takeWhile is_digit cs)"
    and "length rest = length (dropWhile is_digit cs)"
    by (auto simp: lex_digits_def split: if_splits)
  moreover have "length (takeWhile is_digit cs) + length (dropWhile is_digit cs) = length cs"
    by (metis length_append takeWhile_dropWhile_id)
  ultimately show ?thesis by linarith
qed

lemma lex_int_shorter: "lex_int cs = Some (ds, rest) \<Longrightarrow> length rest < length cs"
  by (auto simp: lex_int_def split: list.splits if_splits dest: lex_digits_shorter)

lemma lex_frac_shorter: "lex_frac cs = Some (ds, rest) \<Longrightarrow> length rest \<le> length cs"
  by (auto simp: lex_frac_def split: list.splits if_splits option.splits
      dest: lex_digits_shorter)

lemma lex_exp_shorter: "lex_exp cs = Some (ds, rest) \<Longrightarrow> length rest \<le> length cs"
  by (auto simp: lex_exp_def split: list.splits if_splits option.splits
      dest: lex_digits_shorter)

lemma lex_unsigned_shorter:
  "lex_unsigned cs = Some (n, rest) \<Longrightarrow> length rest < length cs"
  by (fastforce simp: lex_unsigned_def split: option.splits
      dest: lex_int_shorter lex_frac_shorter lex_exp_shorter)

lemma lex_number_shorter:
  "lex_number cs = Some (n, rest) \<Longrightarrow> length rest < length cs"
  by (auto simp: lex_number_def split: list.splits if_splits option.splits
      dest: lex_unsigned_shorter)

lemma lex_name_shorter: "lex_name name cs = Some rest \<Longrightarrow> length rest \<le> length cs"
  by (auto simp: lex_name_def split: if_splits)

function lex :: "jsstring \<Rightarrow> token list option" where
  "lex [] = Some []"
| "lex (c # cs) =
     (if is_json_ws c then lex cs
      else if c = 0x7B then map_option ((#) TLBrace) (lex cs)
      else if c = 0x7D then map_option ((#) TRBrace) (lex cs)
      else if c = 0x5B then map_option ((#) TLBracket) (lex cs)
      else if c = 0x5D then map_option ((#) TRBracket) (lex cs)
      else if c = 0x3A then map_option ((#) TColon) (lex cs)
      else if c = 0x2C then map_option ((#) TComma) (lex cs)
      else if c = 0x22 then
        (case lex_string cs of
           None \<Rightarrow> None
         | Some (s, rest) \<Rightarrow> map_option ((#) (TString s)) (lex rest))
      else if c = 0x2D \<or> is_digit c then
        (case lex_number (c # cs) of
           None \<Rightarrow> None
         | Some (n, rest) \<Rightarrow> map_option ((#) (TNumber n)) (lex rest))
      else if c = 0x74 then
        (case lex_name (str ''rue'') cs of
           None \<Rightarrow> None
         | Some rest \<Rightarrow> map_option ((#) TTrue) (lex rest))
      else if c = 0x66 then
        (case lex_name (str ''alse'') cs of
           None \<Rightarrow> None
         | Some rest \<Rightarrow> map_option ((#) TFalse) (lex rest))
      else if c = 0x6E then
        (case lex_name (str ''ull'') cs of
           None \<Rightarrow> None
         | Some rest \<Rightarrow> map_option ((#) TNull) (lex rest))
      else None)"
  by pat_completeness auto
termination
  by (relation "measure length")
    (auto dest: lex_string_shorter lex_name_shorter lex_number_shorter)

text \<open>
  The parser reads the tokens from left to right. Its stack holds, innermost first, the
  arrays and objects that are open with what they contain so far, and above an object
  the key whose value is being read.
\<close>

datatype frame =
    InArr "jsval list"
  | InObj "(jsstring \<times> jsval) list"
  | Key jsstring

datatype mode =
    ExpectValue
  | ExpectValueOrEnd
  | ExpectKeyOrEnd
  | ExpectKey
  | ExpectColon
  | AfterValue
  | Finished jsval

text \<open>
  A member of an object: a key that is there already keeps its place and takes the new
  value, so that of duplicate keys the last one wins.
\<close>

fun set_member :: "jsstring \<Rightarrow> jsval \<Rightarrow> (jsstring \<times> jsval) list \<Rightarrow> (jsstring \<times> jsval) list"
  where
  "set_member k v [] = [(k, v)]"
| "set_member k v ((k', v') # ms) =
     (if k' = k then (k, v) # ms else (k', v') # set_member k v ms)"

text \<open>A complete value goes to the innermost open array or object.\<close>

fun deliver :: "jsval \<Rightarrow> frame list \<Rightarrow> (mode \<times> frame list) option" where
  "deliver v [] = Some (Finished v, [])"
| "deliver v (InArr xs # st) = Some (AfterValue, InArr (xs @ [v]) # st)"
| "deliver v (Key k # InObj ms # st) = Some (AfterValue, InObj (set_member k v ms) # st)"
| "deliver v st = None"

fun value_start ::
  "(jsstring \<Rightarrow> jsstring) \<Rightarrow> token \<Rightarrow> frame list \<Rightarrow> (mode \<times> frame list) option"
  where
  "value_start number_text TLBracket st = Some (ExpectValueOrEnd, InArr [] # st)"
| "value_start number_text TLBrace st = Some (ExpectKeyOrEnd, InObj [] # st)"
| "value_start number_text (TString s) st = deliver (JStr s) st"
| "value_start number_text (TNumber n) st = deliver (JNum (number_text n)) st"
| "value_start number_text TTrue st = deliver (JBool True) st"
| "value_start number_text TFalse st = deliver (JBool False) st"
| "value_start number_text TNull st = deliver JNull st"
| "value_start number_text t st = None"

fun close_array :: "frame list \<Rightarrow> (mode \<times> frame list) option" where
  "close_array (InArr xs # st) = deliver (JArr xs) st"
| "close_array st = None"

fun close_object :: "frame list \<Rightarrow> (mode \<times> frame list) option" where
  "close_object (InObj ms # st) = deliver (JObj ms) st"
| "close_object st = None"

fun key_start :: "token \<Rightarrow> frame list \<Rightarrow> (mode \<times> frame list) option" where
  "key_start (TString k) st = Some (ExpectColon, Key k # st)"
| "key_start t st = None"

fun after_value :: "token \<Rightarrow> frame list \<Rightarrow> (mode \<times> frame list) option" where
  "after_value TComma (InArr xs # st) = Some (ExpectValue, InArr xs # st)"
| "after_value TRBracket (InArr xs # st) = close_array (InArr xs # st)"
| "after_value TComma (InObj ms # st) = Some (ExpectKey, InObj ms # st)"
| "after_value TRBrace (InObj ms # st) = close_object (InObj ms # st)"
| "after_value t st = None"

fun parse_step ::
  "(jsstring \<Rightarrow> jsstring) \<Rightarrow> mode \<Rightarrow> frame list \<Rightarrow> token \<Rightarrow> (mode \<times> frame list) option"
  where
  "parse_step number_text ExpectValue st t = value_start number_text t st"
| "parse_step number_text ExpectValueOrEnd st t =
     (if t = TRBracket then close_array st else value_start number_text t st)"
| "parse_step number_text ExpectKeyOrEnd st t =
     (if t = TRBrace then close_object st else key_start t st)"
| "parse_step number_text ExpectKey st t = key_start t st"
| "parse_step number_text ExpectColon st t =
     (if t = TColon then Some (ExpectValue, st) else None)"
| "parse_step number_text AfterValue st t = after_value t st"
| "parse_step number_text (Finished v) st t = None"

fun parse_tokens ::
  "(jsstring \<Rightarrow> jsstring) \<Rightarrow> mode \<Rightarrow> frame list \<Rightarrow> token list \<Rightarrow> jsval option"
  where
  "parse_tokens number_text m st [] = (case (m, st) of (Finished v, []) \<Rightarrow> Some v | _ \<Rightarrow> None)"
| "parse_tokens number_text m st (t # ts) =
     (case parse_step number_text m st t of
        None \<Rightarrow> None
      | Some (m', st') \<Rightarrow> parse_tokens number_text m' st' ts)"

text \<open>
  \<open>JSON.parse(text)\<close>: the value, or a SyntaxError. \<open>number_text\<close> is the platform's
  reading of a number: it gives, for the lexeme of a JSON number, the canonical decimal
  text of the IEEE double nearest to it (\<open>1\<close> for \<open>1.0\<close>, \<open>1000\<close> for \<open>1e3\<close>).
  Floating point is not modelled, so it is a parameter.
\<close>

definition json_parse :: "(jsstring \<Rightarrow> jsstring) \<Rightarrow> jsstring \<Rightarrow> js_error + jsval" where
  "json_parse number_text text =
     (case lex text of
        None \<Rightarrow> Inl (SyntaxError text)
      | Some ts \<Rightarrow>
          (case parse_tokens number_text ExpectValue [] ts of
             None \<Rightarrow> Inl (SyntaxError text)
           | Some v \<Rightarrow> Inr v))"

text \<open>
  A reading of numbers for inputs whose numbers are written canonically (integers of at
  most fifteen digits without sign, leading zero, fraction or exponent, as the ids of
  citations are): it leaves the lexeme as it is.
\<close>

definition integer_text :: "jsstring \<Rightarrow> jsstring" where
  "integer_text lexeme = lexeme"

section \<open>String methods\<close>

text \<open>\<open>s.split(sep)\<close> for a separator of one code unit: never an empty list.\<close>

fun split_on :: "code_unit \<Rightarrow> jsstring \<Rightarrow> jsstring list" where
  "split_on sep [] = [[]]"
| "split_on sep (c # cs) =
     (if c = sep then [] # split_on sep cs
      else (case split_on sep cs of
              [] \<Rightarrow> [[c]]
            | part # parts \<Rightarrow> (c # part) # parts))"

text \<open>What \<open>trim\<close> removes: the white space and line terminators of ECMAScript.\<close>

definition is_js_space :: "code_unit \<Rightarrow> bool" where
  "is_js_space c =
     ((0x09 \<le> c \<and> c \<le> 0x0D) \<or> c = 0x20 \<or> c = 0xA0 \<or> c = 0x1680
      \<or> (0x2000 \<le> c \<and> c \<le> 0x200A) \<or> c = 0x2028 \<or> c = 0x2029 \<or> c = 0x202F
      \<or> c = 0x205F \<or> c = 0x3000 \<or> c = 0xFEFF)"

definition js_trim :: "jsstring \<Rightarrow> jsstring" where
  "js_trim s = rev (dropWhile is_js_space (rev (dropWhile is_js_space s)))"

section \<open>The component\<close>

text \<open>
  The state of \<open>App\<close> (lines 5 to 10), one field for each \<open>useState\<close>. The answer is
  \<open>null\<close> or a string between two handlers, and a string from line 50 to the end of
  \<open>handleQuery\<close>: the type of the field says which. A file is known by its name.
\<close>

record 'a app_state =
  selectedFile :: "jsstring option"
  query :: jsstring
  answer :: 'a
  citations :: jsval
  isLoading :: bool
  error :: shown

definition with_answer :: "'b \<Rightarrow> 'a app_state \<Rightarrow> 'b app_state" where
  "with_answer v st =
     \<lparr>selectedFile = selectedFile st, query = query st, answer = v,
      citations = citations st, isLoading = isLoading st, error = error st\<rparr>"

text \<open>
  What \<open>fetch\<close> gives: a rejection with an Error of some message, or a response with
  its \<open>ok\<close> flag and its body.
\<close>

datatype 'b fetched = Rejected jsstring | Response bool 'b

text \<open>
  The body of a query response, as the loop of line 69 sees it: the texts that
  \<open>decoder.decode(value)\<close> returns for the pieces delivered one after the other (each
  piece is decoded on its own: line 73 passes no \<open>stream\<close> option), and how the stream
  ends: \<open>done\<close>, or a \<open>read\<close> that fails with some message.
\<close>

record stream_body =
  pieces :: "jsstring list"
  failure :: "jsstring option"

subsection \<open>\<open>handleQuery\<close>\<close>

text \<open>Line 74: the lines of one piece that are not blank.\<close>

definition chunk_lines :: "jsstring \<Rightarrow> jsstring list" where
  "chunk_lines chunk = filter (\<lambda>line. js_trim line \<noteq> []) (split_on 0x0A chunk)"

text \<open>
  How the handler is cut short. An exception thrown under the \<open>try\<close> is caught at line
  91. The updater of line 80 is not run under the \<open>try\<close>: React runs it when it applies
  the update, and when it throws there is no new state to show, and React takes the
  component down.
\<close>

datatype stop = Caught js_error | Unmounted js_error

text \<open>
  Lines 78 to 87, for a value that has been parsed. Reading \<open>parsed.type\<close> throws when
  \<open>parsed\<close> is \<open>null\<close>; nothing has been set then. The answer is a string here, so
  \<open>prev + parsed.data\<close> is the answer followed by the data as a string.
\<close>

definition dispatch :: "jsstring app_state \<Rightarrow> jsval \<Rightarrow> stop + jsstring app_state" where
  "dispatch st parsed =
     (case get_prop parsed (str ''type'') of
        Inl e \<Rightarrow> Inl (Caught e)
      | Inr t \<Rightarrow>
          if t = JStr (str ''chunk'') then
            (case get_prop parsed (str ''data'') of
               Inl e \<Rightarrow> Inl (Caught e)
             | Inr d \<Rightarrow>
                 (case to_string d of
                    Inl e \<Rightarrow> Inl (Unmounted e)
                  | Inr s \<Rightarrow> Inr (st\<lparr>answer := answer st @ s\<rparr>)))
          else if t = JStr (str ''citations'') then
            (case get_prop parsed (str ''data'') of
               Inl e \<Rightarrow> Inl (Caught e)
             | Inr d \<Rightarrow> Inr (st\<lparr>citations := d\<rparr>))
          else if t = JStr (str ''error'') then
            (case get_prop parsed (str ''data'') of
               Inl e \<Rightarrow> Inl (Caught e)
             | Inr d \<Rightarrow> Inr (st\<lparr>error := Val d\<rparr>))
          else Inr st)"

text \<open>Lines 77 to 87: one pass of the \<open>for\<close> loop.\<close>

definition process_line ::
  "(jsstring \<Rightarrow> jsstring) \<Rightarrow> jsstring app_state \<Rightarrow> jsstring \<Rightarrow> stop + jsstring app_state"
  where
  "process_line number_text st line =
     (case json_parse number_text line of
        Inl e \<Rightarrow> Inl (Caught e)
      | Inr parsed \<Rightarrow> dispatch st parsed)"

text \<open>
  Lines 76 to 88: the \<open>for\<close> loop. An exception leaves it, with the state as the
  lines before have set it.
\<close>

fun process_lines ::
  "(jsstring \<Rightarrow> jsstring) \<Rightarrow> jsstring app_state \<Rightarrow> jsstring list
     \<Rightarrow> jsstring app_state \<times> stop option"
  where
  "process_lines number_text st [] = (st, None)"
| "process_lines number_text st (line # lines) =
     (case process_line number_text st line of
        Inl e \<Rightarrow> (st, Some e)
      | Inr st' \<Rightarrow> process_lines number_text st' lines)"

text \<open>Lines 69 to 89: the \<open>while\<close> loop over the reads.\<close>

fun read_loop ::
  "(jsstring \<Rightarrow> jsstring) \<Rightarrow> jsstring app_state \<Rightarrow> jsstring list \<Rightarrow> jsstring option
     \<Rightarrow> jsstring app_state \<times> stop option"
  where
  "read_loop number_text st [] None = (st, None)"
| "read_loop number_text st [] (Some m) = (st, Some (Caught (Thrown m)))"
| "read_loop number_text st (chunk # rest) fl =
     (case process_lines number_text st (chunk_lines chunk) of
        (st', Some e) \<Rightarrow> (st', Some e)
      | (st', None) \<Rightarrow> read_loop number_text st' rest fl)"

text \<open>Lines 54 to 89: the body of the \<open>try\<close>.\<close>

fun query_try ::
  "(jsstring \<Rightarrow> jsstring) \<Rightarrow> jsstring app_state \<Rightarrow> stream_body fetched
     \<Rightarrow> jsstring app_state \<times> stop option"
  where
  "query_try number_text st (Rejected m) = (st, Some (Caught (Thrown m)))"
| "query_try number_text st (Response ok body) =
     (if \<not> ok then
        (st, Some (Caught (Thrown (str ''Query failed. Is the backend running?''))))
      else read_loop number_text st (pieces body) (failure body))"

text \<open>Lines 48 to 51.\<close>

definition query_reset :: "'a app_state \<Rightarrow> jsstring app_state" where
  "query_reset st =
     (with_answer [] (st\<lparr>isLoading := True, error := Val (JStr [])\<rparr>))\<lparr>citations := JArr []\<rparr>"

text \<open>Lines 91 to 95: \<open>catch\<close> and \<open>finally\<close>.\<close>

fun query_finish :: "jsstring app_state \<times> stop option \<Rightarrow> js_error + jsstring app_state" where
  "query_finish (st, None) = Inr (st\<lparr>isLoading := False\<rparr>)"
| "query_finish (st, Some (Caught e)) = Inr (st\<lparr>error := message e, isLoading := False\<rparr>)"
| "query_finish (st, Some (Unmounted e)) = Inl e"

text \<open>
  \<open>handleQuery\<close> (lines 47 to 96): the state when it has returned, React having applied
  the updates in the order of the calls; or the exception of an update that could not
  be applied. Rendering is not part of the handler: a state that line 134 cannot render
  is a state here as any other.
\<close>

definition handleQuery ::
  "(jsstring \<Rightarrow> jsstring) \<Rightarrow> 'a app_state \<Rightarrow> stream_body fetched
     \<Rightarrow> js_error + jsstring app_state"
  where
  "handleQuery number_text st response =
     query_finish (query_try number_text (query_reset st) response)"

subsection \<open>\<open>handleIngest\<close>\<close>

text \<open>
  Lines 27 to 38: the request. The body of the response is given as its text, which
  \<open>response.json()\<close> parses. The result is the text that \<open>alert\<close> shows at line 38, or
  the exception that was thrown. Both \<open>new Error\<close> and \<open>alert\<close> convert what they are
  given to a string.
\<close>

fun ingest_request :: "(jsstring \<Rightarrow> jsstring) \<Rightarrow> jsstring fetched \<Rightarrow> js_error + jsstring" where
  "ingest_request number_text (Rejected m) = Inl (Thrown m)"
| "ingest_request number_text (Response ok body) =
     (if \<not> ok then
        (case json_parse number_text body of
           Inl e \<Rightarrow> Inl e
         | Inr errData \<Rightarrow>
             (case get_prop errData (str ''error'') of
                Inl e \<Rightarrow> Inl e
              | Inr v \<Rightarrow>
                  (case to_string
                          (if truthy v then v
                           else JStr (str ''Ingestion failed. Is the backend running?'')) of
                     Inl e \<Rightarrow> Inl e
                   | Inr m \<Rightarrow> Inl (Thrown m))))
      else
        (case json_parse number_text body of
           Inl e \<Rightarrow> Inl e
         | Inr data \<Rightarrow>
             (case get_prop data (str ''message'') of
                Inl e \<Rightarrow> Inl e
              | Inr m \<Rightarrow> to_string m)))"

text \<open>
  \<open>handleIngest\<close> (lines 14 to 45): the texts shown by \<open>alert\<close>, in order, and the state
  when it has returned.
\<close>

definition handleIngest ::
  "(jsstring \<Rightarrow> jsstring) \<Rightarrow> 'a app_state \<Rightarrow> jsstring fetched \<Rightarrow> jsstring list \<times> 'a app_state"
  where
  "handleIngest number_text st response =
     (case selectedFile st of
        None \<Rightarrow> ([str ''Please select a file first.''], st)
      | Some file \<Rightarrow>
          (let st1 = st\<lparr>isLoading := True, error := Val (JStr [])\<rparr> in
           case ingest_request number_text response of
             Inr shown_text \<Rightarrow>
               ([shown_text], st1\<lparr>selectedFile := None, isLoading := False\<rparr>)
           | Inl e \<Rightarrow> ([], st1\<lparr>error := message e, isLoading := False\<rparr>)))"

subsection \<open>The sources shown under the answer\<close>

text \<open>
  What JSX builds: a text written in the source, a value set in braces, or an element
  with its tag, its key, its class and its children.
\<close>

datatype vnode =
    Text jsstring
  | Child jsval
  | Element jsstring "jsval option" jsstring "vnode list"

text \<open>Lines 135 to 138: one citation.\<close>

definition render_citation :: "jsval \<Rightarrow> js_error + vnode" where
  "render_citation citation =
     (case get_prop citation (str ''id'') of
        Inl e \<Rightarrow> Inl e
      | Inr i \<Rightarrow>
          (case get_prop citation (str ''source_text'') of
             Inl e \<Rightarrow> Inl e
           | Inr t \<Rightarrow>
               Inr (Element (str ''div'') (Some i) (str ''citation'')
                     [Element (str ''strong'') None [] [Text (str ''[''), Child i, Text (str '']'')],
                      Element (str ''p'') None [] [Child t]])))"



subsection \<open>Events on the wire\<close>

text \<open>
  The state of a component that has just been mounted (lines 5 to 10), with nothing
  typed into the query field.
\<close>

definition initial_state :: "jsstring option app_state" where
  "initial_state =
     \<lparr>selectedFile = None, query = [], answer = None, citations = JArr [],
      isLoading = False, error = Val (JStr [])\<rparr>"

text \<open>
  A line decodes to an event of type \<open>t\<close> with data \<open>d\<close>: \<open>JSON.parse\<close> accepts it, and the
  value it gives has \<open>t\<close> as its \<open>type\<close> and \<open>d\<close> as its \<open>data\<close>.
\<close>

definition decodes_to :: "(jsstring \<Rightarrow> jsstring) \<Rightarrow> jsstring \<Rightarrow> jsstring \<Rightarrow> jsval \<Rightarrow> bool" where
  "decodes_to number_text line t d =
     (case json_parse number_text line of
        Inl e \<Rightarrow> False
      | Inr parsed \<Rightarrow>
          get_prop parsed (str ''type'') = Inr (JStr t) \<and>
          get_prop parsed (str ''data'') = Inr d)"

text \<open>
  A piece is aligned with the records: it is a whole number of lines, each closed by
  its newline.
\<close>

definition aligned :: "jsstring \<Rightarrow> bool" where
  "aligned piece = (piece = [] \<or> last piece = 0x0A)"

text \<open>
  Applying a record to a state is what one pass of the \<open>for\<close> loop does with its line.
\<close>

definition apply_record ::
  "(jsstring \<Rightarrow> jsstring) \<Rightarrow> jsstring app_state \<Rightarrow> jsstring \<Rightarrow> jsstring app_state" where
  "apply_record number_text st line =
     (case process_line number_text st line of Inr st' \<Rightarrow> st' | Inl e \<Rightarrow> st)"

text \<open>
  An event of the wire format (section 6 of the specification): an object whose \<open>type\<close>
  is \<open>chunk\<close> or \<open>error\<close> with a string as \<open>data\<close>, or \<open>citations\<close> with an array as
  \<open>data\<close>.
\<close>

definition wire_event :: "(jsstring \<Rightarrow> jsstring) \<Rightarrow> jsstring \<Rightarrow> bool" where
  "wire_event number_text line =
     (case json_parse number_text line of
        Inl e \<Rightarrow> False
      | Inr parsed \<Rightarrow>
          (case get_prop parsed (str ''type'') of
             Inr (JStr t) \<Rightarrow>
               (case get_prop parsed (str ''data'') of
                  Inr (JStr d) \<Rightarrow> t = str ''chunk'' \<or> t = str ''error''
                | Inr (JArr cs) \<Rightarrow> t = str ''citations''
                | _ \<Rightarrow> False)
           | _ \<Rightarrow> False))"








subsection \<open>Example inputs\<close>

definition nl :: jsstring where
  "nl = [0x0A]"

definition chunk_hel :: jsstring where
  \<open>chunk_hel = str ''{"type":"chunk","data":"Hel"}''\<close>

definition chunk_lo :: jsstring where
  \<open>chunk_lo = str ''{"type":"chunk","data":"lo"}''\<close>

definition cite_one :: jsstring where
  \<open>cite_one = str ''{"type":"citations","data":[{"id":1,"source_text":"s"}]}''\<close>

definition error_boom :: jsstring where
  \<open>error_boom = str ''{"type":"error","data":"boom"}''\<close>

definition ping :: jsstring where
  \<open>ping = str ''{"type":"ping","data":"x"}''\<close>







definition earlier_query :: "jsstring app_state" where
  "earlier_query =
     \<lparr>selectedFile = None, query = [], answer = str ''old'', citations = JArr [JNull],
      isLoading = False, error = Val (JStr (str ''failed''))\<rparr>"

section \<open>Properties of the pieces\<close>

lemmas js_eval =
  json_parse_def str_def is_json_ws_def is_digit_def lex_name_def lex_number_def
  lex_unsigned_def lex_int_def lex_frac_def lex_exp_def lex_digits_def lex_escape_def
  simple_escape_def hex4_def hex_value_def chunk_lines_def js_trim_def is_js_space_def
  process_line_def dispatch_def decodes_to_def aligned_def apply_record_def
  query_reset_def with_answer_def initial_state_def handleQuery_def handleIngest_def
  render_citation_def integer_text_def

text \<open>Splitting at newlines and taking a text apart at a newline agree.\<close>

lemma split_on_nonempty: "split_on sep cs \<noteq> []"
  by (induction cs) (auto split: list.splits)

lemma split_on_append:
  "split_on sep (xs @ sep # ys) = split_on sep xs @ split_on sep ys"
proof (induction xs)
  case Nil
  then show ?case by simp
next
  case (Cons c xs)
  then show ?case
    using split_on_nonempty [of sep xs]
    by (cases "split_on sep xs") auto
qed

lemma split_on_no_sep: "sep \<notin> set l \<Longrightarrow> split_on sep l = [l]"
  by (induction l) auto

lemma chunk_lines_Nil: "chunk_lines [] = []"
  by (simp add: chunk_lines_def js_trim_def)

lemma chunk_lines_append:
  assumes "aligned a"
  shows "chunk_lines (a @ b) = chunk_lines a @ chunk_lines b"
proof (cases "a = []")
  case True
  then show ?thesis by (simp add: chunk_lines_Nil)
next
  case False
  with assms obtain a' where a: "a = a' @ [0x0A]"
    unfolding aligned_def by (metis append_butlast_last_id)
  have "split_on 0x0A (a @ b) = split_on 0x0A a' @ split_on 0x0A b"
    using split_on_append [of "0x0A" a' b] by (simp add: a)
  moreover have "split_on 0x0A a = split_on 0x0A a' @ [[]]"
    using split_on_append [of "0x0A" a' "[]"] by (simp add: a)
  ultimately show ?thesis
    by (simp add: chunk_lines_def js_trim_def)
qed

lemma chunk_lines_framed:
  "\<forall>l \<in> set ls. 0x0A \<notin> set l \<and> js_trim l \<noteq> [] \<Longrightarrow>
   chunk_lines (concat (map (\<lambda>l. l @ [0x0A]) ls)) = ls"
proof (induction ls)
  case Nil
  then show ?case by (simp add: chunk_lines_Nil)
next
  case (Cons l ls)
  then have l: "0x0A \<notin> set l" "js_trim l \<noteq> []" by simp_all
  have "chunk_lines (l @ [0x0A]) = [l]"
    using split_on_append [of "0x0A" l "[]"] l
    by (simp add: chunk_lines_def split_on_no_sep) (simp add: js_trim_def)
  moreover have "aligned (l @ [0x0A])" by (simp add: aligned_def)
  ultimately have "chunk_lines ((l @ [0x0A]) @ concat (map (\<lambda>l. l @ [0x0A]) ls)) =
      [l] @ chunk_lines (concat (map (\<lambda>l. l @ [0x0A]) ls))"
    by (simp only: chunk_lines_append)
  with Cons show ?case by simp
qed

text \<open>The \<open>for\<close> loop over two lists of lines, and the \<open>while\<close> loop over aligned pieces.\<close>

lemma process_lines_append:
  "process_lines nt st (xs @ ys) =
     (case process_lines nt st xs of
        (st', Some e) \<Rightarrow> (st', Some e)
      | (st', None) \<Rightarrow> process_lines nt st' ys)"
  by (induction xs arbitrary: st) (auto split: sum.splits)

lemma read_loop_aligned:
  "\<forall>p \<in> set ps. aligned p \<Longrightarrow>
   read_loop nt st ps fl =
     (case process_lines nt st (chunk_lines (concat ps)) of
        (st', Some e) \<Rightarrow> (st', Some e)
      | (st', None) \<Rightarrow> read_loop nt st' [] fl)"
proof (induction ps arbitrary: st)
  case Nil
  then show ?case by (simp add: chunk_lines_Nil)
next
  case (Cons p ps)
  then have p: "aligned p" and ps: "\<forall>q \<in> set ps. aligned q" by simp_all
  show ?case
    by (simp add: chunk_lines_append [OF p] process_lines_append Cons.IH [OF ps]
        split: prod.splits option.splits)
qed

lemma process_lines_fold:
  "process_lines nt st ls = (st', None) \<Longrightarrow> st' = foldl (apply_record nt) st ls"
  by (induction ls arbitrary: st) (auto simp: apply_record_def split: sum.splits)

text \<open>A line that decodes to an event is dispatched on its type.\<close>

lemma process_line_event:
  assumes "decodes_to nt line t d"
  shows "process_line nt st line =
           (if t = str ''chunk'' then
              (case to_string d of
                 Inl e \<Rightarrow> Inl (Unmounted e)
               | Inr s \<Rightarrow> Inr (st\<lparr>answer := answer st @ s\<rparr>))
            else if t = str ''citations'' then Inr (st\<lparr>citations := d\<rparr>)
            else if t = str ''error'' then Inr (st\<lparr>error := Val d\<rparr>)
            else Inr st)"
  using assms
  by (auto simp: decodes_to_def process_line_def dispatch_def split: sum.splits)

lemma type_names_distinct:
  "str ''chunk'' \<noteq> str ''citations''" "str ''chunk'' \<noteq> str ''error''"
  "str ''citations'' \<noteq> str ''chunk''" "str ''citations'' \<noteq> str ''error''"
  "str ''error'' \<noteq> str ''chunk''" "str ''error'' \<noteq> str ''citations''"
  by (simp_all add: str_def)

lemma process_lines_chunks:
  "list_all2 (\<lambda>line d. decodes_to nt line (str ''chunk'') (JStr d)) lines ds \<Longrightarrow>
   process_lines nt st lines = (st\<lparr>answer := answer st @ concat ds\<rparr>, None)"
proof (induction lines ds arbitrary: st rule: list_all2_induct)
  case Nil
  then show ?case by simp
next
  case (Cons line d lines ds)
  then show ?case by (simp add: process_line_event)
qed


text \<open>The example inputs, evaluated.\<close>

lemma decode_chunk_hel: "decodes_to nt chunk_hel (str ''chunk'') (JStr (str ''Hel''))"
  by (simp add: chunk_hel_def js_eval)

lemma decode_chunk_lo: "decodes_to nt chunk_lo (str ''chunk'') (JStr (str ''lo''))"
  by (simp add: chunk_lo_def js_eval)

lemma decode_cite_one:
  "decodes_to integer_text cite_one (str ''citations'')
     (JArr [JObj [(str ''id'', JNum (str ''1'')), (str ''source_text'', JStr (str ''s''))]])"
  by (simp add: cite_one_def js_eval)

lemma decode_error_boom: "decodes_to nt error_boom (str ''error'') (JStr (str ''boom''))"
  by (simp add: error_boom_def js_eval)

lemma parse_ping:
  "json_parse nt ping =
     Inr (JObj [(str ''type'', JStr (str ''ping'')), (str ''data'', JStr (str ''x''))])"
  by (simp add: ping_def js_eval)




lemma lines_example_1: "chunk_lines (chunk_hel @ nl @ chunk_lo @ nl) = [chunk_hel, chunk_lo]"
  by (simp add: chunk_hel_def chunk_lo_def nl_def js_eval)

lemma lines_example_2: "chunk_lines (cite_one @ nl) = [cite_one]"
  by (simp add: cite_one_def nl_def js_eval)



lemma aligned_nl: "aligned (xs @ nl)"
  by (simp add: aligned_def nl_def)

lemma wire_event_applies:
  assumes "wire_event nt line"
  shows "process_line nt st line = Inr (apply_record nt st line)"
proof -
  from assms obtain parsed t where p: "json_parse nt line = Inr parsed"
    and t: "get_prop parsed (str ''type'') = Inr (JStr t)"
    by (auto simp: wire_event_def split: sum.splits jsval.splits)
  from assms p t obtain d where d: "get_prop parsed (str ''data'') = Inr d"
    and c: "t = str ''chunk'' \<longrightarrow> (\<exists>s. d = JStr s)"
    by (auto simp: wire_event_def type_names_distinct split: sum.splits jsval.splits)
  from p t d have "decodes_to nt line t d" by (simp add: decodes_to_def)
  from process_line_event [OF this, of st] c
  obtain st' where "process_line nt st line = Inr st'"
    by (auto split: if_splits)
  then show ?thesis by (simp add: apply_record_def)
qed

lemma process_lines_wire_events:
  "\<forall>l \<in> set ls. wire_event nt l \<Longrightarrow>
   process_lines nt st ls = (foldl (apply_record nt) st ls, None)"
  by (induction ls arbitrary: st) (simp_all add: wire_event_applies)

lemma wire_examples:
  "wire_event integer_text chunk_hel" "wire_event integer_text chunk_lo"
  "wire_event integer_text cite_one"
  by (simp_all add: wire_event_def chunk_hel_def chunk_lo_def cite_one_def js_eval)









section \<open>The claims\<close>

text \<open>
  C1. The claim asks that a record cut in two by the delivery be put together again.
  The loop keeps nothing from one piece to the next: fed the record
  \<open>{"type":"chunk","data":"hi"}\<close> in the two pieces of the claim, it hands the first piece
  to \<open>JSON.parse\<close>, which throws; the error becomes the message of that exception, the
  second piece is never read and the answer stays empty. Fed the same record in one
  piece, it gives the answer \<open>hi\<close>.
\<close>

theorem record_split_across_pieces:
  \<open>handleQuery nt st
     (Response True
        \<lparr>pieces = [str ''{"type":"ch'', str ''unk","data":"hi"}'' @ [0x0A]], failure = None\<rparr>) =
   Inr ((query_reset st)
     \<lparr>error := MessageOf (SyntaxError (str ''{"type":"ch'')), isLoading := False\<rparr>)
   \<and> handleQuery nt st
     (Response True
        \<lparr>pieces = [str ''{"type":"chunk","data":"hi"}'' @ [0x0A]], failure = None\<rparr>) =
   Inr ((query_reset st)\<lparr>answer := str ''hi'', isLoading := False\<rparr>)\<close>
  by (simp add: json_parse_def str_def is_json_ws_def is_digit_def lex_name_def
      lex_escape_def simple_escape_def chunk_lines_def js_trim_def is_js_space_def
      process_line_def dispatch_def handleQuery_def query_reset_def with_answer_def)




text \<open>
  C3. For a delivery that is aligned with the records, each piece being a whole number
  of lines closed by their newline, the loop of \<open>handleQuery\<close> does with the pieces what
  the \<open>for\<close> loop does with the non-blank lines of the whole stream, each taken once and
  in the order of the stream, whatever the cut into pieces. When every such line is an
  event of the wire format, nothing stops the loop, and the state at the end is the
  left fold of the records over the state; so it is after every run that nothing stops.
\<close>

theorem aligned_delivery_in_order:
  assumes "\<forall>p \<in> set ps. aligned p"
  shows "read_loop nt st ps fl =
           (case process_lines nt st (chunk_lines (concat ps)) of
              (st', Some e) \<Rightarrow> (st', Some e)
            | (st', None) \<Rightarrow> read_loop nt st' [] fl)
         \<and> ((\<forall>l \<in> set (chunk_lines (concat ps)). wire_event nt l) \<longrightarrow>
              read_loop nt st ps None =
                (foldl (apply_record nt) st (chunk_lines (concat ps)), None))
         \<and> (read_loop nt st ps None = (st', None) \<longrightarrow>
              st' = foldl (apply_record nt) st (chunk_lines (concat ps)))"
proof -
  have one: "read_loop nt st ps fl =
           (case process_lines nt st (chunk_lines (concat ps)) of
              (st', Some e) \<Rightarrow> (st', Some e)
            | (st', None) \<Rightarrow> read_loop nt st' [] fl)" for fl
    using assms by (rule read_loop_aligned)
  have two: "read_loop nt st ps None =
      (foldl (apply_record nt) st (chunk_lines (concat ps)), None)"
    if "\<forall>l \<in> set (chunk_lines (concat ps)). wire_event nt l"
    using one [of None] process_lines_wire_events [OF that, of st] by simp
  have three: "st' = foldl (apply_record nt) st (chunk_lines (concat ps))"
    if "read_loop nt st ps None = (st', None)"
  proof -
    from that one [of None]
    have "process_lines nt st (chunk_lines (concat ps)) = (st', None)"
      by (auto split: prod.splits option.splits)
    then show ?thesis by (rule process_lines_fold)
  qed
  from one two three show ?thesis by blast
qed

theorem aligned_delivery_in_order_witness:
  "aligned (chunk_hel @ nl @ chunk_lo @ nl) \<and> aligned (cite_one @ nl)
   \<and> wire_event integer_text chunk_hel \<and> wire_event integer_text chunk_lo
   \<and> wire_event integer_text cite_one
   \<and> read_loop integer_text (query_reset initial_state)
        [chunk_hel @ nl @ chunk_lo @ nl, cite_one @ nl] None =
      (foldl (apply_record integer_text) (query_reset initial_state)
         [chunk_hel, chunk_lo, cite_one], None)
   \<and> foldl (apply_record integer_text) (query_reset initial_state)
        [chunk_hel, chunk_lo, cite_one] =
      (query_reset initial_state)\<lparr>answer := str ''Hello'', citations :=
          JArr [JObj [(str ''id'', JNum (str ''1'')), (str ''source_text'', JStr (str ''s''))]]\<rparr>"
proof -
  have al: "\<forall>p \<in> set [chunk_hel @ nl @ chunk_lo @ nl, cite_one @ nl]. aligned p"
    using aligned_nl [of "chunk_hel @ nl @ chunk_lo"] aligned_nl [of cite_one] by simp
  have ls: "chunk_lines (concat [chunk_hel @ nl @ chunk_lo @ nl, cite_one @ nl]) =
      [chunk_hel, chunk_lo, cite_one]"
    using chunk_lines_append [OF aligned_nl, of "chunk_hel @ nl @ chunk_lo" "cite_one @ nl"]
    by (simp add: lines_example_1 lines_example_2)
  have ws: "\<forall>l \<in> set [chunk_hel, chunk_lo, cite_one]. wire_event integer_text l"
    by (simp add: wire_examples)
  note t = aligned_delivery_in_order [OF al, where nt = integer_text
      and st = "query_reset initial_state", unfolded ls]
  from t [THEN conjunct2, THEN conjunct1, THEN mp, OF ws]
  have r: "read_loop integer_text (query_reset initial_state)
        [chunk_hel @ nl @ chunk_lo @ nl, cite_one @ nl] None =
      (foldl (apply_record integer_text) (query_reset initial_state)
         [chunk_hel, chunk_lo, cite_one], None)" .
  have f: "foldl (apply_record integer_text) (query_reset initial_state)
        [chunk_hel, chunk_lo, cite_one] =
      (query_reset initial_state)\<lparr>answer := str ''Hello'', citations :=
          JArr [JObj [(str ''id'', JNum (str ''1'')), (str ''source_text'', JStr (str ''s''))]]\<rparr>"
    by (simp add: apply_record_def process_line_event [OF decode_chunk_hel]
        process_line_event [OF decode_chunk_lo] process_line_event [OF decode_cite_one]
        type_names_distinct)
      (simp add: str_def query_reset_def with_answer_def)
  from al ws r f show ?thesis by simp
qed

text \<open>
  C4. A line that decodes to a \<open>chunk\<close> event with the string \<open>d\<close> as data leaves the
  state as it was but for the answer, which is the answer before with \<open>d\<close> at its end;
  a sequence of such lines appends their data in the order of the lines.
\<close>

theorem chunk_event_appends:
  "(decodes_to nt line (str ''chunk'') (JStr d) \<longrightarrow>
      process_line nt st line = Inr (st\<lparr>answer := answer st @ d\<rparr>))
   \<and> (list_all2 (\<lambda>line d. decodes_to nt line (str ''chunk'') (JStr d)) lines ds \<longrightarrow>
      process_lines nt st lines = (st\<lparr>answer := answer st @ concat ds\<rparr>, None))"
  by (simp add: process_line_event process_lines_chunks)

theorem chunk_event_appends_witness:
  "decodes_to integer_text chunk_lo (str ''chunk'') (JStr (str ''lo''))
   \<and> process_line integer_text ((query_reset initial_state)\<lparr>answer := str ''Hel''\<rparr>) chunk_lo =
       Inr ((query_reset initial_state)\<lparr>answer := str ''Hello''\<rparr>)
   \<and> list_all2 (\<lambda>line d. decodes_to integer_text line (str ''chunk'') (JStr d))
        [chunk_hel, chunk_lo] [str ''Hel'', str ''lo'']
   \<and> process_lines integer_text (query_reset initial_state) [chunk_hel, chunk_lo] =
       ((query_reset initial_state)\<lparr>answer := str ''Hello''\<rparr>, None)"
proof -
  have d: "decodes_to integer_text chunk_lo (str ''chunk'') (JStr (str ''lo''))"
    by (rule decode_chunk_lo)
  have l: "list_all2 (\<lambda>line d. decodes_to integer_text line (str ''chunk'') (JStr d))
        [chunk_hel, chunk_lo] [str ''Hel'', str ''lo'']"
    by (simp add: decode_chunk_hel decode_chunk_lo)
  note t = chunk_event_appends [of integer_text chunk_lo "str ''lo''"
      "(query_reset initial_state)\<lparr>answer := str ''Hel''\<rparr>" "[chunk_hel, chunk_lo]"
      "[str ''Hel'', str ''lo'']"]
  note u = chunk_event_appends [of integer_text chunk_lo "str ''lo''"
      "query_reset initial_state" "[chunk_hel, chunk_lo]" "[str ''Hel'', str ''lo'']"]
  from t d have "process_line integer_text
        ((query_reset initial_state)\<lparr>answer := str ''Hel''\<rparr>) chunk_lo =
       Inr ((query_reset initial_state)\<lparr>answer := str ''Hello''\<rparr>)"
    by (simp add: str_def)
  moreover from u l
  have "process_lines integer_text (query_reset initial_state) [chunk_hel, chunk_lo] =
       ((query_reset initial_state)\<lparr>answer := str ''Hello''\<rparr>, None)"
    by (simp add: str_def query_reset_def with_answer_def)
  ultimately show ?thesis using d l by (intro conjI)
qed

text \<open>
  C5. A line that decodes to a \<open>citations\<close> event sets the citations to the data of the
  event and nothing else; the citations held before have no part in the result.
\<close>

theorem citations_event_replaces:
  assumes "decodes_to nt line (str ''citations'') d"
  shows "process_line nt st line = Inr (st\<lparr>citations := d\<rparr>)
         \<and> process_line nt (st\<lparr>citations := c\<rparr>) line = process_line nt st line"
  using assms by (simp add: process_line_event type_names_distinct)

theorem citations_event_replaces_witness:
  "decodes_to integer_text cite_one (str ''citations'')
     (JArr [JObj [(str ''id'', JNum (str ''1'')), (str ''source_text'', JStr (str ''s''))]])
   \<and> process_line integer_text
        ((query_reset initial_state)\<lparr>citations := JArr [JStr (str ''old'')]\<rparr>) cite_one =
       Inr ((query_reset initial_state)\<lparr>citations :=
         JArr [JObj [(str ''id'', JNum (str ''1'')), (str ''source_text'', JStr (str ''s''))]]\<rparr>)"
  using citations_event_replaces [OF decode_cite_one,
      where st = "(query_reset initial_state)\<lparr>citations := JArr [JStr (str ''old'')]\<rparr>"]
    decode_cite_one
  by simp

text \<open>
  C9. A line that decodes to an \<open>error\<close> event sets the error to the data of the event
  and nothing else: the answer gathered so far and the citations stay as they are.
\<close>

theorem error_event_sets_only_error:
  assumes "decodes_to nt line (str ''error'') d"
  shows "process_line nt st line = Inr (st\<lparr>error := Val d\<rparr>)"
  using assms by (simp add: process_line_event type_names_distinct)

theorem error_event_sets_only_error_witness:
  "decodes_to integer_text error_boom (str ''error'') (JStr (str ''boom''))
   \<and> process_line integer_text
        ((query_reset initial_state)\<lparr>answer := str ''Hel'', citations := JArr [JNull]\<rparr>)
        error_boom =
       Inr ((query_reset initial_state)\<lparr>answer := str ''Hel'', citations := JArr [JNull],
              error := Val (JStr (str ''boom''))\<rparr>)"
  using error_event_sets_only_error [OF decode_error_boom,
      where st = "(query_reset initial_state)\<lparr>answer := str ''Hel'', citations := JArr [JNull]\<rparr>"]
    decode_error_boom [of integer_text]
  by simp

text \<open>
  C10. A line that parses to a value whose \<open>type\<close> can be read (any value but \<open>null\<close>, which
  has no properties to read) and is none of \<open>chunk\<close>, \<open>citations\<close> and \<open>error\<close> leaves the
  whole state as it was, and throws nothing.
\<close>

theorem unknown_type_ignored:
  assumes "json_parse nt line = Inr parsed"
    and "get_prop parsed (str ''type'') = Inr t"
    and "t \<noteq> JStr (str ''chunk'')" and "t \<noteq> JStr (str ''citations'')"
    and "t \<noteq> JStr (str ''error'')"
  shows "process_line nt st line = Inr st"
  using assms by (simp add: process_line_def dispatch_def)

theorem unknown_type_ignored_witness:
  "json_parse integer_text ping =
     Inr (JObj [(str ''type'', JStr (str ''ping'')), (str ''data'', JStr (str ''x''))])
   \<and> get_prop (JObj [(str ''type'', JStr (str ''ping'')), (str ''data'', JStr (str ''x''))])
        (str ''type'') = Inr (JStr (str ''ping''))
   \<and> JStr (str ''ping'') \<noteq> JStr (str ''chunk'')
   \<and> JStr (str ''ping'') \<noteq> JStr (str ''citations'')
   \<and> JStr (str ''ping'') \<noteq> JStr (str ''error'')
   \<and> process_line integer_text (query_reset initial_state) ping = Inr (query_reset initial_state)"
proof -
  have g: "get_prop (JObj [(str ''type'', JStr (str ''ping'')), (str ''data'', JStr (str ''x''))])
        (str ''type'') = Inr (JStr (str ''ping''))"
    by simp
  have n: "JStr (str ''ping'') \<noteq> JStr (str ''chunk'')"
    "JStr (str ''ping'') \<noteq> JStr (str ''citations'')"
    "JStr (str ''ping'') \<noteq> JStr (str ''error'')"
    by (simp_all add: str_def)
  have "process_line integer_text (query_reset initial_state) ping = Inr (query_reset initial_state)"
    by (rule unknown_type_ignored [OF parse_ping g n])
  with g n show ?thesis using parse_ping by simp
qed







text \<open>
  C8. \<open>handleQuery\<close> sets the error to the empty string, the answer to the empty string
  and the citations to the empty array, and the reading of the stream starts from that
  state; so two states with the same file and the same query give the same result on
  the same response, whatever answer, citations and error an earlier query has left.
\<close>

theorem query_starts_afresh:
  "error (query_reset st) = Val (JStr [])
   \<and> answer (query_reset st) = []
   \<and> citations (query_reset st) = JArr []
   \<and> handleQuery nt st (Response True body) =
       query_finish (read_loop nt (query_reset st) (pieces body) (failure body))
   \<and> (selectedFile st = selectedFile st' \<and> query st = query st' \<longrightarrow>
        handleQuery nt st response = handleQuery nt st' response)"
  by (simp add: handleQuery_def query_reset_def with_answer_def)

theorem query_starts_afresh_witness:
  "selectedFile initial_state = selectedFile earlier_query
   \<and> query initial_state = query earlier_query
   \<and> handleQuery integer_text initial_state
        (Response True \<lparr>pieces = [chunk_lo @ nl], failure = None\<rparr>) =
      handleQuery integer_text earlier_query
        (Response True \<lparr>pieces = [chunk_lo @ nl], failure = None\<rparr>)
   \<and> handleQuery integer_text earlier_query
        (Response True \<lparr>pieces = [chunk_lo @ nl], failure = None\<rparr>) =
      Inr \<lparr>selectedFile = None, query = [], answer = str ''lo'', citations = JArr [],
           isLoading = False, error = Val (JStr [])\<rparr>"
proof -
  note t = query_starts_afresh [where st = initial_state and st' = earlier_query
      and nt = integer_text
      and response = "Response True \<lparr>pieces = [chunk_lo @ nl], failure = None\<rparr>",
      THEN conjunct2, THEN conjunct2, THEN conjunct2, THEN conjunct2]
  have s: "selectedFile initial_state = selectedFile earlier_query
      \<and> query initial_state = query earlier_query"
    by (simp add: initial_state_def earlier_query_def)
  from t s have e: "handleQuery integer_text initial_state
        (Response True \<lparr>pieces = [chunk_lo @ nl], failure = None\<rparr>) =
      handleQuery integer_text earlier_query
        (Response True \<lparr>pieces = [chunk_lo @ nl], failure = None\<rparr>)"
    by (rule mp)
  have l: "chunk_lines (chunk_lo @ nl) = [chunk_lo]"
    using chunk_lines_framed [of "[chunk_lo]"]
    by (simp add: nl_def) (simp add: chunk_lo_def js_eval)
  have "handleQuery integer_text earlier_query
        (Response True \<lparr>pieces = [chunk_lo @ nl], failure = None\<rparr>) =
      Inr \<lparr>selectedFile = None, query = [], answer = str ''lo'', citations = JArr [],
           isLoading = False, error = Val (JStr [])\<rparr>"
    by (simp add: handleQuery_def l process_line_event [OF decode_chunk_lo])
      (simp add: query_reset_def with_answer_def earlier_query_def)
  with s e show ?thesis by simp
qed

end
